theory Spec2Isabelle
  imports Main
begin

section \<open>Python values used by universal\_dashboard\_basic.py\<close>

text \<open>
  A Python \<open>str\<close> is a sequence of Unicode code points; \<open>str.strip\<close> and the mood
  labels (which start with an emoji) work on code points, so a string is a list of
  code points. \<open>ascii\<close> writes the ASCII literals of the source.
\<close>

type_synonym pystr = "nat list"

definition ascii :: "string \<Rightarrow> pystr" where
  "ascii s = map of_char s"

text \<open>
  The exceptions the program can meet. \<open>SystemExit\<close> and \<open>KeyboardInterrupt\<close> derive
  from \<open>BaseException\<close> but not from \<open>Exception\<close>, so \<open>except Exception\<close> does not
  catch them; the others are subclasses of \<open>Exception\<close>.
\<close>

datatype py_error =
  KeyError | IndexError | TypeError | ValueError | OSError | UnpicklingError
  | SystemExit | KeyboardInterrupt

definition is_exception :: "py_error \<Rightarrow> bool" where
  "is_exception e = (case e of SystemExit \<Rightarrow> False | KeyboardInterrupt \<Rightarrow> False | _ \<Rightarrow> True)"

text \<open>
  The values the program stores in an entity dict: strings (names, ISO dates, labels)
  and integers (the streak). A dict is a map from keys to values; the store
  \<open>data\<close> is a dict from list names to lists of entity dicts.
\<close>

datatype pyval = PStr pystr | PInt int

type_synonym entity = "pystr \<rightharpoonup> pyval"

type_synonym store = "pystr \<rightharpoonup> entity list"

subsection \<open>\<open>str.strip()\<close>\<close>

text \<open>
  The code points for which \<open>str.isspace\<close> holds; \<open>strip()\<close> with no argument removes
  exactly these from both ends.
\<close>

definition py_isspace :: "nat \<Rightarrow> bool" where
  "py_isspace c =
     ((9 \<le> c \<and> c \<le> 13) \<or> (28 \<le> c \<and> c \<le> 32) \<or> c = 133 \<or> c = 160 \<or> c = 5760 \<or>
      (8192 \<le> c \<and> c \<le> 8202) \<or> c = 8232 \<or> c = 8233 \<or> c = 8239 \<or> c = 8287 \<or>
      c = 12288)"

definition strip :: "pystr \<Rightarrow> pystr" where
  "strip s = rev (dropWhile py_isspace (rev (dropWhile py_isspace s)))"

text \<open>A string with no whitespace at either end.\<close>

definition trimmed :: "pystr \<Rightarrow> bool" where
  "trimmed s = (case s of [] \<Rightarrow> True | c # _ \<Rightarrow> \<not> py_isspace c \<and> \<not> py_isspace (last s))"

subsection \<open>\<open>str()\<close> of a stored value, as the f-strings format it\<close>

fun dec_nat :: "nat \<Rightarrow> pystr" where
  "dec_nat n = (if n < 10 then [48 + n] else dec_nat (n div 10) @ [48 + n mod 10])"

definition py_str :: "pyval \<Rightarrow> pystr" where
  "py_str v =
     (case v of
        PStr s \<Rightarrow> s
      | PInt i \<Rightarrow> (if i < 0 then 45 # dec_nat (nat (- i)) else dec_nat (nat i)))"

subsection \<open>\<open>datetime.date\<close> and \<open>isoformat()\<close>\<close>

text \<open>
  A \<open>date\<close> has a year in 1..9999, a month and a day; \<open>isoformat()\<close> prints
  \<open>YYYY-MM-DD\<close> with leading zeros.
\<close>

record date =
  year :: nat
  month :: nat
  day :: nat

definition digit :: "nat \<Rightarrow> nat" where
  "digit n = 48 + n mod 10"

definition isoformat :: "date \<Rightarrow> pystr" where
  "isoformat d =
     [digit (year d div 1000), digit (year d div 100), digit (year d div 10), digit (year d)]
     @ [45] @ [digit (month d div 10), digit (month d)]
     @ [45] @ [digit (day d div 10), digit (day d)]"

subsection \<open>List operations that can raise\<close>

text \<open>\<open>xs.pop(i)\<close>: a negative index counts from the end; out of range raises.\<close>

definition py_pop :: "'a list \<Rightarrow> int \<Rightarrow> py_error + 'a list" where
  "py_pop xs i =
     (let n = int (length xs); j = (if i < 0 then i + n else i)
      in if 0 \<le> j \<and> j < n then Inr (take (nat j) xs @ drop (Suc (nat j)) xs)
         else Inl IndexError)"

text \<open>\<open>d.get(k, default)\<close>.\<close>

definition dict_get :: "('k \<rightharpoonup> 'v) \<Rightarrow> 'k \<Rightarrow> 'v \<Rightarrow> 'v" where
  "dict_get d k dflt = (case d k of None \<Rightarrow> dflt | Some v \<Rightarrow> v)"

section \<open>Record store: \<open>load_data\<close> and \<open>save_data\<close>\<close>

text \<open>
  The state of \<open>dashboard_data_basic.pkl\<close>: its bytes when it exists, and whether it
  can be opened for reading and for writing. The \<open>pickle\<close> codec is a library, taken
  as the two parameters \<open>dumps\<close> and \<open>loads\<close> over a blob type. \<open>pickle.load\<close> runs
  what the file encodes: it can raise any exception, also one outside \<open>Exception\<close>,
  and it can return an object that is not a store.
\<close>

datatype loaded = Store store | Other pyval

record 'b data_file =
  content :: "'b option"
  readable :: bool
  writable :: bool

definition empty_store :: store where
  "empty_store =
     [ascii ''tasks'' \<mapsto> [], ascii ''notes'' \<mapsto> [], ascii ''habits'' \<mapsto> [],
      ascii ''mood_log'' \<mapsto> []]"

definition path_exists :: "'b data_file \<Rightarrow> bool" where
  "path_exists f = (content f \<noteq> None)"

definition open_rb :: "'b data_file \<Rightarrow> py_error + 'b" where
  "open_rb f =
     (case content f of
        None \<Rightarrow> Inl OSError
      | Some b \<Rightarrow> (if readable f then Inr b else Inl OSError))"

text \<open>
  \<open>load_data\<close>: an exception of \<open>open\<close> or \<open>pickle.load\<close> that is an
  \<open>Exception\<close> is caught and replaced by a fresh store; any other exception
  propagates. What \<open>pickle.load\<close> returns is returned as it is, unchecked.
\<close>

definition load_data :: "('b \<Rightarrow> py_error + loaded) \<Rightarrow> 'b data_file \<Rightarrow> py_error + loaded" where
  "load_data loads f =
     (if path_exists f then
        (case (case open_rb f of Inl e \<Rightarrow> Inl e | Inr b \<Rightarrow> loads b) of
           Inl e \<Rightarrow> (if is_exception e then Inr (Store empty_store) else Inl e)
         | Inr v \<Rightarrow> Inr v)
      else Inr (Store empty_store))"


section \<open>Entity operations: the button handlers\<close>

text \<open>
  Each handler is the body run when its button returns \<open>True\<close>, as a function of the
  in-memory store \<open>data\<close> and the widget values; it returns the notice shown and the
  store that \<open>save_data\<close> then persists.
  Every entity is built by a dict literal of its own, so the entries of a list are
  distinct objects and an update of one entry changes no other: the lists hold values.
\<close>

datatype notice = Warning pystr | Success pystr | Quiet

definition priority_options :: "pystr list" where
  "priority_options = [ascii ''Low'', ascii ''Medium'', ascii ''High'']"

subsection \<open>Tasks\<close>

definition new_task :: "pystr \<Rightarrow> pystr \<Rightarrow> date \<Rightarrow> entity" where
  "new_task task_name priority due_date =
     [ascii ''name'' \<mapsto> PStr (strip task_name),
      ascii ''priority'' \<mapsto> PStr priority,
      ascii ''due'' \<mapsto> PStr (isoformat due_date),
      ascii ''status'' \<mapsto> PStr (ascii ''Pending'')]"

definition add_task :: "store \<Rightarrow> pystr \<Rightarrow> pystr \<Rightarrow> date \<Rightarrow> py_error + notice \<times> store" where
  "add_task data task_name priority due_date =
     (if strip task_name = [] then
        Inr (Warning (ascii ''Please enter a task name.''), data)
      else
        (case data (ascii ''tasks'') of
           None \<Rightarrow> Inl KeyError
         | Some ts \<Rightarrow>
             Inr (Success (ascii ''Task added.''),
                  data(ascii ''tasks'' \<mapsto> ts @ [new_task task_name priority due_date]))))"



definition delete_task :: "store \<Rightarrow> nat \<Rightarrow> py_error + notice \<times> store" where
  "delete_task data i =
     (case data (ascii ''tasks'') of
        None \<Rightarrow> Inl KeyError
      | Some ts \<Rightarrow>
          (case py_pop ts (int i) of
             Inl e \<Rightarrow> Inl e
           | Inr ts' \<Rightarrow> Inr (Quiet, data(ascii ''tasks'' \<mapsto> ts'))))"

text \<open>
  The expander label of a task:
  \<open>f"{t['name']} \<emdash> {status} (Priority: {t.get('priority','-')})"\<close> with
  \<open>status = t.get("status", "Pending")\<close>.
\<close>

definition task_status :: "entity \<Rightarrow> pyval" where
  "task_status t = dict_get t (ascii ''status'') (PStr (ascii ''Pending''))"

definition task_label :: "entity \<Rightarrow> py_error + pystr" where
  "task_label t =
     (case t (ascii ''name'') of
        None \<Rightarrow> Inl KeyError
      | Some nm \<Rightarrow>
          Inr (py_str nm @ [32, 8212, 32] @ py_str (task_status t) @ ascii '' (Priority: ''
               @ py_str (dict_get t (ascii ''priority'') (PStr (ascii ''-''))) @ ascii '')''))"

subsection \<open>Notes\<close>

definition new_note :: "pystr \<Rightarrow> pystr \<Rightarrow> date \<Rightarrow> entity" where
  "new_note note_title note_body today =
     [ascii ''title'' \<mapsto> PStr (strip note_title),
      ascii ''content'' \<mapsto> PStr (strip note_body),
      ascii ''date'' \<mapsto> PStr (isoformat today)]"

text \<open>\<open>data.setdefault("notes", [])\<close> creates the list when the key is missing.\<close>

definition save_note :: "store \<Rightarrow> pystr \<Rightarrow> pystr \<Rightarrow> date \<Rightarrow> py_error + notice \<times> store" where
  "save_note data note_title note_body today =
     (if strip note_title = [] \<or> strip note_body = [] then
        Inr (Warning (ascii ''Please provide both a title and content for the note.''), data)
      else
        Inr (Success (ascii ''Note saved.''),
             data(ascii ''notes'' \<mapsto>
               dict_get data (ascii ''notes'') [] @ [new_note note_title note_body today])))"

text \<open>
  The notes as displayed: \<open>enumerate(reversed(data["notes"]))\<close>, each row with the
  index \<open>idx = len(data["notes"]) - 1 - j\<close> its Delete button pops. A missing or empty
  list shows no rows.
\<close>

definition notes_view :: "store \<Rightarrow> (int \<times> entity) list" where
  "notes_view data =
     (let ns = dict_get data (ascii ''notes'') []
      in map (\<lambda>(j, n). (int (length ns) - 1 - int j, n)) (enumerate 0 (rev ns)))"

definition delete_note :: "store \<Rightarrow> int \<Rightarrow> py_error + notice \<times> store" where
  "delete_note data idx =
     (case data (ascii ''notes'') of
        None \<Rightarrow> Inl KeyError
      | Some ns \<Rightarrow>
          (case py_pop ns idx of
             Inl e \<Rightarrow> Inl e
           | Inr ns' \<Rightarrow> Inr (Quiet, data(ascii ''notes'' \<mapsto> ns'))))"

text \<open>Pressing the Delete button of the row at display position \<open>j\<close>.\<close>

definition delete_note_shown :: "store \<Rightarrow> nat \<Rightarrow> py_error + notice \<times> store" where
  "delete_note_shown data j =
     (if j < length (notes_view data) then delete_note data (fst (notes_view data ! j))
      else Inl IndexError)"

subsection \<open>Habits\<close>

definition new_habit :: "pystr \<Rightarrow> entity" where
  "new_habit habit_name = [ascii ''name'' \<mapsto> PStr (strip habit_name), ascii ''streak'' \<mapsto> PInt 0]"

definition add_habit :: "store \<Rightarrow> pystr \<Rightarrow> py_error + notice \<times> store" where
  "add_habit data habit_name =
     (if strip habit_name \<noteq> [] then
        Inr (Success (ascii ''Habit added.''),
             data(ascii ''habits'' \<mapsto> dict_get data (ascii ''habits'') [] @ [new_habit habit_name]))
      else Inr (Warning (ascii ''Enter a habit name.''), data))"

text \<open>The row text of a habit: \<open>f"{h['name']} \<emdash> Streak: {h['streak']}"\<close>.\<close>

definition habit_row :: "entity \<Rightarrow> py_error + pystr" where
  "habit_row h =
     (case h (ascii ''name'') of
        None \<Rightarrow> Inl KeyError
      | Some nm \<Rightarrow>
          (case h (ascii ''streak'') of
             None \<Rightarrow> Inl KeyError
           | Some k \<Rightarrow> Inr (py_str nm @ [32, 8212, 32] @ ascii ''Streak: '' @ py_str k)))"

text \<open>
  The body of \<open>if cols[1].button(f"Mark today ... {h_idx}")\<close> (lines 165 to 167):
  \<open>data["habits"][h_idx]["streak"] = data["habits"][h_idx].get("streak",0) + 1\<close>;
  adding 1 to a string raises \<open>TypeError\<close>. In a run of the page the row text of
  line 163 is written first; \<open>habit_rows\<close> below composes the two.
\<close>

definition mark_today :: "store \<Rightarrow> nat \<Rightarrow> py_error + notice \<times> store" where
  "mark_today data h_idx =
     (case data (ascii ''habits'') of
        None \<Rightarrow> Inl KeyError
      | Some hs \<Rightarrow>
          (if h_idx < length hs then
             (case dict_get (hs ! h_idx) (ascii ''streak'') (PInt 0) of
                PInt k \<Rightarrow>
                  Inr (Quiet,
                       data(ascii ''habits'' \<mapsto>
                         hs[h_idx := (hs ! h_idx)(ascii ''streak'' \<mapsto> PInt (k + 1))]))
              | PStr s \<Rightarrow> Inl TypeError)
           else Inl IndexError))"

subsection \<open>Mood\<close>

definition mood_options :: "pystr list" where
  "mood_options =
     [[128546, 32] @ ascii ''Sad'', [128528, 32] @ ascii ''Meh'', [128578, 32] @ ascii ''Good'',
      [128515, 32] @ ascii ''Great'', [129321, 32] @ ascii ''Awesome'']"

definition log_mood :: "store \<Rightarrow> date \<Rightarrow> pystr \<Rightarrow> py_error + notice \<times> store" where
  "log_mood data today mood =
     Inr (Success (ascii ''Mood logged.''),
          data(ascii ''mood_log'' \<mapsto>
            dict_get data (ascii ''mood_log'') []
            @ [[ascii ''date'' \<mapsto> PStr (isoformat today), ascii ''mood'' \<mapsto> PStr mood]]))"

section \<open>A run of the page: the task rows and the habit rows\<close>

text \<open>
  Streamlit runs the script from the top on every interaction. A button returns
  \<open>True\<close> only in the run that its own click triggered, so in one run at most one
  button is true: the one named by the click that started the run.
  \<open>st.experimental_rerun()\<close> ends the run at once; a run it does not end goes on to the
  sections below.
\<close>

datatype click =
  NoClick | ClickMarkDone nat | ClickEdit nat | ClickSaveChanges nat | ClickDelete nat
  | ClickMarkToday nat

definition button :: "click \<Rightarrow> click \<Rightarrow> bool" where
  "button clicked b = (clicked = b)"

datatype run_end = Rerun | Continue





text \<open>
  The loop over \<open>enumerate(data["habits"])\<close> (lines 161 to 167), from row \<open>h_idx\<close> on:
  each row writes its text, then tests its Mark today button.
\<close>

fun habit_rows :: "click \<Rightarrow> store \<Rightarrow> nat \<Rightarrow> entity list \<Rightarrow> py_error + run_end \<times> notice \<times> store" where
  "habit_rows clicked data h_idx [] = Inr (Continue, Quiet, data)"
| "habit_rows clicked data h_idx (h # rest) =
     (case habit_row h of
        Inl e \<Rightarrow> Inl e
      | Inr row \<Rightarrow>
          (if button clicked (ClickMarkToday h_idx) then
             (case mark_today data h_idx of Inl e \<Rightarrow> Inl e | Inr (m, d) \<Rightarrow> Inr (Rerun, m, d))
           else habit_rows clicked data (Suc h_idx) rest))"

definition habits_section :: "click \<Rightarrow> store \<Rightarrow> py_error + run_end \<times> notice \<times> store" where
  "habits_section clicked data = habit_rows clicked data 0 (dict_get data (ascii ''habits'') [])"

section \<open>Aggregation: the mood series and the snapshot\<close>

text \<open>
  \<open>mapping = {mood_options[i]: i+1 for i in range(len(mood_options))}\<close>: the
  comprehension inserts the keys in order, a later equal key overwriting an earlier one.
\<close>

definition mapping :: "pystr \<rightharpoonup> int" where
  "mapping =
     foldl (\<lambda>m i. m(mood_options ! i \<mapsto> int i + 1)) Map.empty [0..<length mood_options]"

text \<open>
  \<open>Series.map(mapping)\<close>: a label that is not a key, or a missing cell, gives a
  missing score.
\<close>

definition score_of :: "pyval option \<Rightarrow> int option" where
  "score_of cell = (case cell of Some (PStr s) \<Rightarrow> mapping s | _ \<Rightarrow> None)"

text \<open>
  The rows of \<open>df_mood\<close>, one per entry of \<open>data["mood_log"]\<close> in list order, as
  (date, score) points. \<open>df_mood["mood"]\<close> raises \<open>KeyError\<close> when no entry has the
  key. A missing or empty log draws nothing.
\<close>

definition mood_series :: "store \<Rightarrow> py_error + (pyval option \<times> int option) list" where
  "mood_series data =
     (let log = dict_get data (ascii ''mood_log'') []
      in if log = [] then Inr []
         else if list_all (\<lambda>e. e (ascii ''mood'') = None) log then Inl KeyError
         else Inr (map (\<lambda>e. (e (ascii ''date''), score_of (e (ascii ''mood'')))) log))"

record snapshot =
  total_tasks :: int
  completed :: int
  pending :: int
  total_notes :: int
  total_habits :: int

definition is_completed :: "entity \<Rightarrow> bool" where
  "is_completed t = (t (ascii ''status'') = Some (PStr (ascii ''Completed'')))"

definition get_summary :: "store \<Rightarrow> snapshot" where
  "get_summary data =
     (let total = int (length (dict_get data (ascii ''tasks'') []));
          done = int (length (filter is_completed (dict_get data (ascii ''tasks'') [])))
      in \<lparr>total_tasks = total, completed = done, pending = total - done,
          total_notes = int (length (dict_get data (ascii ''notes'') [])),
          total_habits = int (length (dict_get data (ascii ''habits'') []))\<rparr>)"

text \<open>
  The spec's score of a label: its 1-based rank in the ordered vocabulary
  \<open>mood_options\<close>. \<open>index_of\<close> is the position of the first occurrence.
\<close>

fun index_of :: "'a \<Rightarrow> 'a list \<Rightarrow> nat" where
  "index_of x [] = 0"
| "index_of x (y # ys) = (if x = y then 0 else Suc (index_of x ys))"

definition label_rank :: "pystr \<Rightarrow> int" where
  "label_rank l = int (index_of l mood_options) + 1"

section \<open>Stores built by the create operations\<close>

text \<open>
  The trimming invariant: every string value of every entity of the store has no
  whitespace at either end.
\<close>

definition entity_trimmed :: "entity \<Rightarrow> bool" where
  "entity_trimmed e = (\<forall>k s. e k = Some (PStr s) \<longrightarrow> trimmed s)"

definition store_trimmed :: "store \<Rightarrow> bool" where
  "store_trimmed data = (\<forall>k es. data k = Some es \<longrightarrow> (\<forall>e\<in>set es. entity_trimmed e))"

text \<open>
  The stores built from the fresh store by the three create handlers, the priority
  being one of the options the selectbox offers.
\<close>

inductive created :: "store \<Rightarrow> bool" where
  from_fresh: "created empty_store"
| by_task: "created data \<Longrightarrow> priority \<in> set priority_options \<Longrightarrow>
         add_task data task_name priority due_date = Inr (m, data') \<Longrightarrow> created data'"
| by_note: "created data \<Longrightarrow>
         save_note data note_title note_body today = Inr (m, data') \<Longrightarrow> created data'"
| by_habit: "created data \<Longrightarrow> add_habit data habit_name = Inr (m, data') \<Longrightarrow> created data'"

section \<open>Sample files\<close>

text \<open>
  What \<open>pickle.load\<close> does on three concrete files, and what \<open>pickle.dumps\<close>
  (protocol 4) writes for the fresh store. The first file is the pickle of the fresh
  store. The second is the same file with one byte changed (the key reads
  \<open>tasjs\<close>): it still unpickles. The third is the 14 bytes of
  \<open>csys\<close>, a newline, \<open>exit\<close>, a newline and \<open>(tR.\<close>, which make \<open>pickle.load\<close> call \<open>sys.exit()\<close> and so raise
  \<open>SystemExit\<close>. Any other file of the table is taken as unreadable. The value of
  \<open>pickle_dumps_sample\<close> at other stores is not used.
\<close>

definition pickle_load_sample :: "nat list \<Rightarrow> py_error + loaded" where
  "pickle_load_sample b =
     (if b = [128, 4, 149, 49, 0, 0, 0, 0, 0, 0, 0, 125, 148, 40, 140, 5, 116, 97, 115, 107,
              115, 148, 93, 148, 140, 5, 110, 111, 116, 101, 115, 148, 93, 148, 140, 6, 104,
              97, 98, 105, 116, 115, 148, 93, 148, 140, 8, 109, 111, 111, 100, 95, 108, 111,
              103, 148, 93, 148, 117, 46]
      then Inr (Store empty_store)
      else if b = [128, 4, 149, 49, 0, 0, 0, 0, 0, 0, 0, 125, 148, 40, 140, 5, 116, 97, 115,
                   106, 115, 148, 93, 148, 140, 5, 110, 111, 116, 101, 115, 148, 93, 148, 140,
                   6, 104, 97, 98, 105, 116, 115, 148, 93, 148, 140, 8, 109, 111, 111, 100, 95,
                   108, 111, 103, 148, 93, 148, 117, 46]
      then Inr (Store [ascii ''tasjs'' \<mapsto> [], ascii ''notes'' \<mapsto> [], ascii ''habits'' \<mapsto> [],
                       ascii ''mood_log'' \<mapsto> []])
      else if b = [99, 115, 121, 115, 10, 101, 120, 105, 116, 10, 40, 116, 82, 46]
      then Inl SystemExit
      else Inl UnpicklingError)"


section \<open>Verified properties\<close>

subsection \<open>Adding a task\<close>

lemma get_summary_tasks_append:
  assumes "data (ascii ''tasks'') = Some ts" and "\<not> is_completed t"
  shows "get_summary (data(ascii ''tasks'' \<mapsto> ts @ [t])) =
         (get_summary data)\<lparr>total_tasks := total_tasks (get_summary data) + 1,
                            pending := pending (get_summary data) + 1\<rparr>"
  using assms by (simp add: get_summary_def dict_get_def Let_def ascii_def)

text \<open>
  Claim C1. For a name that is non-empty after \<open>strip()\<close>, a priority among Low, Medium
  and High, a date, and a store that has its task list, \<open>add_task\<close> succeeds and the new
  task list is the old one followed by exactly one task. That task has the keys name,
  priority, due and status and no other: the name as trimmed, the priority as given, the
  date in ISO form and the status Pending. Every other key of the store is unchanged,
  and in the snapshot the total and the pending count (total minus completed) each grow
  by exactly 1 while the completed count stays.
\<close>

theorem add_task_appends_pending:
  assumes "strip task_name \<noteq> []"
    and "priority \<in> set priority_options"
    and "data (ascii ''tasks'') = Some ts"
  shows "\<exists>t data'.
           add_task data task_name priority due_date = Inr (Success (ascii ''Task added.''), data')
         \<and> data' (ascii ''tasks'') = Some (ts @ [t])
         \<and> t (ascii ''name'') = Some (PStr (strip task_name))
         \<and> t (ascii ''priority'') = Some (PStr priority)
         \<and> t (ascii ''due'') = Some (PStr (isoformat due_date))
         \<and> t (ascii ''status'') = Some (PStr (ascii ''Pending''))
         \<and> dom t = {ascii ''name'', ascii ''priority'', ascii ''due'', ascii ''status''}
         \<and> (\<forall>k. k \<noteq> ascii ''tasks'' \<longrightarrow> data' k = data k)
         \<and> total_tasks (get_summary data') = total_tasks (get_summary data) + 1
         \<and> completed (get_summary data') = completed (get_summary data)
         \<and> pending (get_summary data') = pending (get_summary data) + 1"
proof -
  let ?t = "new_task task_name priority due_date"
  let ?d = "data(ascii ''tasks'' \<mapsto> ts @ [?t])"
  have run: "add_task data task_name priority due_date = Inr (Success (ascii ''Task added.''), ?d)"
    using assms(1,3) by (simp add: add_task_def)
  have fields: "?t (ascii ''name'') = Some (PStr (strip task_name))"
    "?t (ascii ''priority'') = Some (PStr priority)"
    "?t (ascii ''due'') = Some (PStr (isoformat due_date))"
    "?t (ascii ''status'') = Some (PStr (ascii ''Pending''))"
    by (simp_all add: new_task_def ascii_def)
  have keys: "dom ?t = {ascii ''name'', ascii ''priority'', ascii ''due'', ascii ''status''}"
    by (auto simp add: new_task_def)
  have "\<not> is_completed ?t"
    by (simp add: is_completed_def new_task_def ascii_def)
  then have summ: "get_summary ?d =
         (get_summary data)\<lparr>total_tasks := total_tasks (get_summary data) + 1,
                            pending := pending (get_summary data) + 1\<rparr>"
    using assms(3) by (rule get_summary_tasks_append[rotated])
  show ?thesis
    apply (rule exI[of _ ?t], rule exI[of _ ?d])
    using run fields keys summ by simp
qed

theorem add_task_appends_pending_witness:
  "strip (ascii '' Buy milk '') \<noteq> []
   \<and> ascii ''High'' \<in> set priority_options
   \<and> empty_store (ascii ''tasks'') = Some []
   \<and> (\<exists>t data'.
         add_task empty_store (ascii '' Buy milk '') (ascii ''High'')
           \<lparr>year = 2024, month = 5, day = 17\<rparr> = Inr (Success (ascii ''Task added.''), data')
       \<and> data' (ascii ''tasks'') = Some ([] @ [t])
       \<and> t (ascii ''name'') = Some (PStr (ascii ''Buy milk''))
       \<and> t (ascii ''due'') = Some (PStr (ascii ''2024-05-17''))
       \<and> pending (get_summary data') = pending (get_summary empty_store) + 1)"
proof -
  have a: "strip (ascii '' Buy milk '') \<noteq> []"
    by (simp add: strip_def ascii_def py_isspace_def)
  have b: "ascii ''High'' \<in> set priority_options"
    by (simp add: priority_options_def)
  have c: "empty_store (ascii ''tasks'') = Some []"
    by (simp add: empty_store_def ascii_def)
  have s: "strip (ascii '' Buy milk '') = ascii ''Buy milk''"
    by (simp add: strip_def ascii_def py_isspace_def)
  have i: "isoformat \<lparr>year = 2024, month = 5, day = 17\<rparr> = ascii ''2024-05-17''"
    by (simp add: isoformat_def digit_def ascii_def)
  from add_task_appends_pending[where data = empty_store and ts = "[]"
      and task_name = "ascii '' Buy milk ''" and priority = "ascii ''High''"
      and due_date = "\<lparr>year = 2024, month = 5, day = 17\<rparr>", OF a b c]
  show ?thesis using a b c unfolding s i by blast
qed

subsection \<open>Deleting a task\<close>

lemma py_pop_in_range:
  "i < length xs \<Longrightarrow> py_pop xs (int i) = Inr (take i xs @ drop (Suc i) xs)"
  by (simp add: py_pop_def Let_def)

lemma nth_take_drop_Suc:
  assumes "i < length xs"
  shows "length (take i xs @ drop (Suc i) xs) = length xs - 1"
    and "k < i \<Longrightarrow> (take i xs @ drop (Suc i) xs) ! k = xs ! k"
    and "i \<le> k \<Longrightarrow> k < length xs - 1 \<Longrightarrow> (take i xs @ drop (Suc i) xs) ! k = xs ! Suc k"
  using assms by (auto simp add: nth_append min_def)

text \<open>
  Claim C5. For a task list and an index \<open>i\<close> in range, the Delete handler succeeds and
  replaces the task list by a list \<open>ts'\<close> that is one shorter and from which the old
  list is recovered by putting the task of index \<open>i\<close> back at position \<open>i\<close>: exactly
  that task is removed. Tasks before \<open>i\<close> keep their index, and every task that was at
  an index \<open>k > i\<close> is at \<open>k - 1\<close>. No other key of the store changes.
\<close>

theorem delete_task_shifts:
  assumes "data (ascii ''tasks'') = Some ts" and "i < length ts"
  shows "\<exists>ts'. delete_task data i = Inr (Quiet, data(ascii ''tasks'' \<mapsto> ts'))
           \<and> length ts' = length ts - 1
           \<and> ts = take i ts' @ [ts ! i] @ drop i ts'
           \<and> (\<forall>k. k < i \<longrightarrow> ts' ! k = ts ! k)
           \<and> (\<forall>k. i < k \<and> k < length ts \<longrightarrow> ts' ! (k - 1) = ts ! k)"
proof -
  let ?ts' = "take i ts @ drop (Suc i) ts"
  have run: "delete_task data i = Inr (Quiet, data(ascii ''tasks'' \<mapsto> ?ts'))"
    using assms by (simp add: delete_task_def py_pop_in_range)
  have len: "length ?ts' = length ts - 1"
    using assms(2) by (rule nth_take_drop_Suc(1))
  have reinsert: "ts = take i ?ts' @ [ts ! i] @ drop i ?ts'"
    using assms(2) by (simp add: min_def Cons_nth_drop_Suc)
  have before: "\<forall>k. k < i \<longrightarrow> ?ts' ! k = ts ! k"
    using assms(2) by (simp add: nth_take_drop_Suc(2))
  have after: "\<forall>k. i < k \<and> k < length ts \<longrightarrow> ?ts' ! (k - 1) = ts ! k"
  proof (intro allI impI)
    fix k assume k: "i < k \<and> k < length ts"
    then have "i \<le> k - 1" "k - 1 < length ts - 1" by arith+
    then have "?ts' ! (k - 1) = ts ! Suc (k - 1)"
      using assms(2) by (rule nth_take_drop_Suc(3)[rotated])
    then show "?ts' ! (k - 1) = ts ! k" using k by simp
  qed
  show ?thesis
    using run len reinsert before after by blast
qed


theorem delete_task_shifts_witness:
  "\<exists>ts'. delete_task
            [ascii ''tasks'' \<mapsto> [[ascii ''name'' \<mapsto> PStr (ascii ''a'')],
                                [ascii ''name'' \<mapsto> PStr (ascii ''b'')],
                                [ascii ''name'' \<mapsto> PStr (ascii ''c'')]]] 1
          = Inr (Quiet, [ascii ''tasks'' \<mapsto> ts'])
        \<and> length ts' = 2
        \<and> ts' ! 0 = [ascii ''name'' \<mapsto> PStr (ascii ''a'')]
        \<and> ts' ! 1 = [ascii ''name'' \<mapsto> PStr (ascii ''c'')]"
proof -
  let ?a = "[ascii ''name'' \<mapsto> PStr (ascii ''a'')]"
  let ?b = "[ascii ''name'' \<mapsto> PStr (ascii ''b'')]"
  let ?c = "[ascii ''name'' \<mapsto> PStr (ascii ''c'')]"
  let ?d = "[ascii ''tasks'' \<mapsto> [?a, ?b, ?c]]"
  have h1: "?d (ascii ''tasks'') = Some [?a, ?b, ?c]" by simp
  have h2: "(1::nat) < length [?a, ?b, ?c]" by simp
  from delete_task_shifts[where data = ?d and ts = "[?a, ?b, ?c]" and i = 1, OF h1 h2]
  obtain ts' where r: "delete_task ?d 1 = Inr (Quiet, ?d(ascii ''tasks'' \<mapsto> ts'))"
    and l: "length ts' = length [?a, ?b, ?c] - 1"
    and p: "\<forall>k. k < 1 \<longrightarrow> ts' ! k = [?a, ?b, ?c] ! k"
    and q: "\<forall>k. 1 < k \<and> k < length [?a, ?b, ?c] \<longrightarrow> ts' ! (k - 1) = [?a, ?b, ?c] ! k"
    by blast
  from p have p0: "ts' ! 0 = ?a" by simp
  from spec[OF q, of 2] have q1: "ts' ! 1 = ?c" by simp
  show ?thesis
    using r l p0 q1 by (intro exI[of _ ts']) simp
qed

subsection \<open>Notes are shown newest first\<close>

lemma notes_view_nth:
  assumes "data (ascii ''notes'') = Some ns" and "j < length ns"
  shows "notes_view data ! j = (int (length ns) - 1 - int j, ns ! (length ns - 1 - j))"
  using assms by (simp add: notes_view_def dict_get_def nth_enumerate_eq rev_nth)

lemma notes_view_length:
  "data (ascii ''notes'') = Some ns \<Longrightarrow> length (notes_view data) = length ns"
  by (simp add: notes_view_def dict_get_def)

lemma notes_view_snd:
  "data (ascii ''notes'') = Some ns \<Longrightarrow> map snd (notes_view data) = rev ns"
  by (simp add: notes_view_def dict_get_def map_snd_enumerate comp_def case_prod_unfold)

lemma delete_note_shown_eq:
  assumes "data (ascii ''notes'') = Some ns" and "j < length ns"
  shows "delete_note_shown data j =
         Inr (Quiet, data(ascii ''notes'' \<mapsto>
                take (length ns - 1 - j) ns @ drop (Suc (length ns - 1 - j)) ns))"
proof -
  have idx: "int (length ns) - 1 - int j = int (length ns - 1 - j)"
    using assms(2) by simp
  have "length ns - 1 - j < length ns" using assms(2) by simp
  then have "py_pop ns (int (length ns - 1 - j)) =
             Inr (take (length ns - 1 - j) ns @ drop (Suc (length ns - 1 - j)) ns)"
    by (rule py_pop_in_range)
  then show ?thesis
    using assms
    by (simp add: delete_note_shown_def notes_view_length notes_view_nth idx delete_note_def)
qed

text \<open>
  Claim C6. The displayed notes are the stored notes in reverse, so the most recently
  appended note comes first. The row at display position \<open>j\<close> shows the note of true
  index \<open>length - 1 - j\<close>, carries that index, and its Delete button removes exactly
  that note. After a successful \<open>save_note\<close> the new note is at display position 0, and
  deleting the row at position 0 gives back the store from before the save.
\<close>

theorem notes_newest_first_delete:
  assumes "data (ascii ''notes'') = Some ns"
  shows "map snd (notes_view data) = rev ns
       \<and> (\<forall>j. j < length ns \<longrightarrow>
            snd (notes_view data ! j) = ns ! (length ns - 1 - j)
          \<and> fst (notes_view data ! j) = int (length ns) - 1 - int j
          \<and> delete_note_shown data j =
              Inr (Quiet, data(ascii ''notes'' \<mapsto>
                     take (length ns - 1 - j) ns @ drop (Suc (length ns - 1 - j)) ns)))
       \<and> (strip note_title \<noteq> [] \<and> strip note_body \<noteq> [] \<longrightarrow>
            (\<exists>data'. save_note data note_title note_body today =
                        Inr (Success (ascii ''Note saved.''), data')
                    \<and> snd (notes_view data' ! 0) = new_note note_title note_body today
                    \<and> delete_note_shown data' 0 = Inr (Quiet, data)))"
proof (intro conjI allI impI)
  show "map snd (notes_view data) = rev ns"
    using assms by (rule notes_view_snd)
next
  fix j assume "j < length ns"
  with assms show "snd (notes_view data ! j) = ns ! (length ns - 1 - j)"
    and "fst (notes_view data ! j) = int (length ns) - 1 - int j"
    by (simp_all add: notes_view_nth)
  from assms \<open>j < length ns\<close>
  show "delete_note_shown data j =
          Inr (Quiet, data(ascii ''notes'' \<mapsto>
                 take (length ns - 1 - j) ns @ drop (Suc (length ns - 1 - j)) ns))"
    by (rule delete_note_shown_eq)
next
  assume ok: "strip note_title \<noteq> [] \<and> strip note_body \<noteq> []"
  let ?n = "new_note note_title note_body today"
  let ?d = "data(ascii ''notes'' \<mapsto> ns @ [?n])"
  have run: "save_note data note_title note_body today = Inr (Success (ascii ''Note saved.''), ?d)"
    using ok assms by (simp add: save_note_def dict_get_def)
  have d: "?d (ascii ''notes'') = Some (ns @ [?n])" by simp
  have pos: "0 < length (ns @ [?n])" by simp
  have shown: "snd (notes_view ?d ! 0) = ?n"
    using notes_view_nth[where data = ?d, OF d pos] by simp
  have "delete_note_shown ?d 0 = Inr (Quiet, ?d(ascii ''notes'' \<mapsto> ns))"
    using delete_note_shown_eq[where data = ?d, OF d pos] by simp
  moreover have "?d(ascii ''notes'' \<mapsto> ns) = data"
    using assms by (simp add: fun_upd_idem)
  ultimately have del: "delete_note_shown ?d 0 = Inr (Quiet, data)" by simp
  show "\<exists>data'. save_note data note_title note_body today =
                        Inr (Success (ascii ''Note saved.''), data')
                    \<and> snd (notes_view data' ! 0) = new_note note_title note_body today
                    \<and> delete_note_shown data' 0 = Inr (Quiet, data)"
    using run shown del by blast
qed


theorem notes_newest_first_delete_witness:
  "map snd (notes_view [ascii ''notes'' \<mapsto> [[ascii ''title'' \<mapsto> PStr (ascii ''old'')],
                                               [ascii ''title'' \<mapsto> PStr (ascii ''new'')]]])
     = [[ascii ''title'' \<mapsto> PStr (ascii ''new'')], [ascii ''title'' \<mapsto> PStr (ascii ''old'')]]
   \<and> delete_note_shown [ascii ''notes'' \<mapsto> [[ascii ''title'' \<mapsto> PStr (ascii ''old'')],
                                               [ascii ''title'' \<mapsto> PStr (ascii ''new'')]]] 0
     = Inr (Quiet, [ascii ''notes'' \<mapsto> [[ascii ''title'' \<mapsto> PStr (ascii ''old'')]]])
   \<and> strip (ascii ''t '') \<noteq> [] \<and> strip (ascii '' b'') \<noteq> []
   \<and> (\<exists>data'. save_note [ascii ''notes'' \<mapsto> [[ascii ''title'' \<mapsto> PStr (ascii ''old'')],
                                                  [ascii ''title'' \<mapsto> PStr (ascii ''new'')]]]
                   (ascii ''t '') (ascii '' b'') \<lparr>year = 2024, month = 5, day = 17\<rparr>
                 = Inr (Success (ascii ''Note saved.''), data')
              \<and> delete_note_shown data' 0
                 = Inr (Quiet, [ascii ''notes'' \<mapsto> [[ascii ''title'' \<mapsto> PStr (ascii ''old'')],
                                                      [ascii ''title'' \<mapsto> PStr (ascii ''new'')]]]))"
proof -
  let ?o = "[ascii ''title'' \<mapsto> PStr (ascii ''old'')]"
  let ?n = "[ascii ''title'' \<mapsto> PStr (ascii ''new'')]"
  let ?d = "[ascii ''notes'' \<mapsto> [?o, ?n]]"
  have h: "?d (ascii ''notes'') = Some [?o, ?n]" by simp
  have ok: "strip (ascii ''t '') \<noteq> [] \<and> strip (ascii '' b'') \<noteq> []"
    by (simp add: strip_def ascii_def py_isspace_def)
  note t = notes_newest_first_delete[where data = ?d and ns = "[?o, ?n]"
      and note_title = "ascii ''t ''" and note_body = "ascii '' b''"
      and today = "\<lparr>year = 2024, month = 5, day = 17\<rparr>", OF h]
  from t have a: "map snd (notes_view ?d) = [?n, ?o]" by simp
  from t have "(0::nat) < length [?o, ?n] \<longrightarrow>
      delete_note_shown ?d 0 =
        Inr (Quiet, ?d(ascii ''notes'' \<mapsto>
               take (length [?o, ?n] - 1 - 0) [?o, ?n] @ drop (Suc (length [?o, ?n] - 1 - 0)) [?o, ?n]))"
    by blast
  then have b: "delete_note_shown ?d 0 = Inr (Quiet, [ascii ''notes'' \<mapsto> [?o]])" by simp
  from t ok have c: "\<exists>data'. save_note ?d (ascii ''t '') (ascii '' b'')
                     \<lparr>year = 2024, month = 5, day = 17\<rparr> = Inr (Success (ascii ''Note saved.''), data')
              \<and> delete_note_shown data' 0 = Inr (Quiet, ?d)"
    by blast
  show ?thesis using a b ok c by blast
qed

subsection \<open>Habit streaks\<close>

lemma mark_today_step:
  assumes "data (ascii ''habits'') = Some hs" and "h_idx < length hs"
    and "dict_get (hs ! h_idx) (ascii ''streak'') (PInt 0) = PInt k"
  shows "mark_today data h_idx =
         Inr (Quiet, data(ascii ''habits'' \<mapsto>
                hs[h_idx := (hs ! h_idx)(ascii ''streak'' \<mapsto> PInt (k + 1))]))"
  using assms by (simp add: mark_today_def)

text \<open>
  Claim C8. For a habit list and an index in range whose habit has an integer streak
  \<open>k\<close> (a missing streak counts as 0), the Mark today handler succeeds and sets that
  habit's streak to \<open>k + 1\<close>; the other keys of the habit, the other habits and the
  other keys of the store stay as they are. The handler takes no date and keeps no
  record of one: marking again at once succeeds again and gives \<open>k + 2\<close>.
\<close>

theorem mark_today_increments:
  assumes "data (ascii ''habits'') = Some hs" and "h_idx < length hs"
    and "dict_get (hs ! h_idx) (ascii ''streak'') (PInt 0) = PInt k"
  shows "\<exists>data'. mark_today data h_idx = Inr (Quiet, data')
           \<and> data' (ascii ''habits'') =
               Some (hs[h_idx := (hs ! h_idx)(ascii ''streak'' \<mapsto> PInt (k + 1))])
           \<and> (\<forall>key. key \<noteq> ascii ''habits'' \<longrightarrow> data' key = data key)
           \<and> (\<exists>data''. mark_today data' h_idx = Inr (Quiet, data'')
                 \<and> data'' (ascii ''habits'') =
                     Some (hs[h_idx := (hs ! h_idx)(ascii ''streak'' \<mapsto> PInt (k + 2))])
                 \<and> (\<forall>key. key \<noteq> ascii ''habits'' \<longrightarrow> data'' key = data key))"
proof -
  let ?hs' = "hs[h_idx := (hs ! h_idx)(ascii ''streak'' \<mapsto> PInt (k + 1))]"
  let ?d' = "data(ascii ''habits'' \<mapsto> ?hs')"
  let ?hs'' = "hs[h_idx := (hs ! h_idx)(ascii ''streak'' \<mapsto> PInt (k + 2))]"
  let ?d'' = "data(ascii ''habits'' \<mapsto> ?hs'')"
  have one: "mark_today data h_idx = Inr (Quiet, ?d')"
    using assms by (rule mark_today_step)
  have h': "?d' (ascii ''habits'') = Some ?hs'" by simp
  have i': "h_idx < length ?hs'" using assms(2) by simp
  have s': "dict_get (?hs' ! h_idx) (ascii ''streak'') (PInt 0) = PInt (k + 1)"
    using assms(2) by (simp add: dict_get_def)
  have "mark_today ?d' h_idx =
        Inr (Quiet, ?d'(ascii ''habits'' \<mapsto>
               ?hs'[h_idx := (?hs' ! h_idx)(ascii ''streak'' \<mapsto> PInt (k + 1 + 1))]))"
    using h' i' s' by (rule mark_today_step)
  moreover have "k + 1 + 1 = k + 2" by simp
  ultimately have two: "mark_today ?d' h_idx = Inr (Quiet, ?d'')"
    using assms(2) by (simp add: add.commute)
  show ?thesis
    apply (rule exI[of _ ?d'])
    using one two by auto
qed

theorem mark_today_increments_witness:
  "\<exists>data'. mark_today [ascii ''habits'' \<mapsto> [[ascii ''name'' \<mapsto> PStr (ascii ''run''),
                                              ascii ''streak'' \<mapsto> PInt 4]]] 0 = Inr (Quiet, data')
        \<and> data' (ascii ''habits'') = Some [[ascii ''name'' \<mapsto> PStr (ascii ''run''),
                                           ascii ''streak'' \<mapsto> PInt 5]]
        \<and> (\<exists>data''. mark_today data' 0 = Inr (Quiet, data'')
              \<and> data'' (ascii ''habits'') = Some [[ascii ''name'' \<mapsto> PStr (ascii ''run''),
                                                  ascii ''streak'' \<mapsto> PInt 6]])"
proof -
  let ?h = "[ascii ''name'' \<mapsto> PStr (ascii ''run''), ascii ''streak'' \<mapsto> PInt 4]"
  let ?d = "[ascii ''habits'' \<mapsto> [?h]]"
  have a: "?d (ascii ''habits'') = Some [?h]" by simp
  have b: "(0::nat) < length [?h]" by simp
  have c: "dict_get ([?h] ! 0) (ascii ''streak'') (PInt 0) = PInt 4"
    by (simp add: dict_get_def)
  from mark_today_increments[where data = ?d and hs = "[?h]" and h_idx = 0 and k = 4, OF a b c]
  obtain d' d'' where "mark_today ?d 0 = Inr (Quiet, d')"
    and "d' (ascii ''habits'') = Some ([?h][0 := ([?h] ! 0)(ascii ''streak'' \<mapsto> PInt (4 + 1))])"
    and "mark_today d' 0 = Inr (Quiet, d'')"
    and "d'' (ascii ''habits'') = Some ([?h][0 := ([?h] ! 0)(ascii ''streak'' \<mapsto> PInt (4 + 2))])"
    by blast
  then show ?thesis
    by (intro exI[of _ d'] conjI exI[of _ d'']) simp_all
qed

subsection \<open>Records that lack a field\<close>

lemma get_summary_tasks_drop_open:
  assumes "\<not> is_completed t"
  shows "completed (get_summary (data(ascii ''tasks'' \<mapsto> xs @ [t] @ ys))) =
           completed (get_summary (data(ascii ''tasks'' \<mapsto> xs @ ys)))"
    and "pending (get_summary (data(ascii ''tasks'' \<mapsto> xs @ [t] @ ys))) =
           pending (get_summary (data(ascii ''tasks'' \<mapsto> xs @ ys))) + 1"
  using assms by (simp_all add: get_summary_def dict_get_def Let_def)

text \<open>
  The row text of a habit reads \<open>h['streak']\<close> directly: for a habit without that key
  the display raises \<open>KeyError\<close>, while the Mark today handler itself uses
  \<open>get("streak", 0)\<close>.
\<close>

lemma habit_row_needs_streak:
  "h (ascii ''streak'') = None \<Longrightarrow> habit_row h = Inl KeyError"
  by (simp add: habit_row_def split: option.splits)

text \<open>
  A task without a status key is not counted as completed, its displayed status is
  Pending, and when it has a name its label is built without error.
\<close>

lemma task_without_status_is_pending:
  assumes "t (ascii ''status'') = None"
  shows "\<not> is_completed t"
    and "task_status t = PStr (ascii ''Pending'')"
    and "t (ascii ''name'') = Some nm \<Longrightarrow>
         task_label t =
           Inr (py_str nm @ [32, 8212, 32] @ ascii ''Pending'' @ ascii '' (Priority: ''
                @ py_str (dict_get t (ascii ''priority'') (PStr (ascii ''-''))) @ ascii '')'')"
  using assms
  by (simp_all add: is_completed_def task_status_def task_label_def dict_get_def py_str_def)

subsection \<open>The mood series\<close>

lemma mapping_table:
  "mapping =
     [[128546, 32] @ ascii ''Sad'' \<mapsto> 1, [128528, 32] @ ascii ''Meh'' \<mapsto> 2,
      [128578, 32] @ ascii ''Good'' \<mapsto> 3, [128515, 32] @ ascii ''Great'' \<mapsto> 4,
      [129321, 32] @ ascii ''Awesome'' \<mapsto> 5]"
proof -
  have "[0..<length mood_options] = [0, 1, 2, 3, 4]"
    by (simp add: mood_options_def upt_rec)
  then show ?thesis
    by (simp add: mapping_def mood_options_def)
qed

lemma mapping_rank:
  assumes "l \<in> set mood_options"
  shows "mapping l = Some (label_rank l)"
  using assms
  by (auto simp add: mapping_table label_rank_def mood_options_def ascii_def)


lemma score_of_label:
  "l \<in> set mood_options \<Longrightarrow> score_of (Some (PStr l)) = Some (label_rank l)"
  by (simp add: score_of_def mapping_rank)

lemma mood_series_rows:
  assumes "data (ascii ''mood_log'') = Some log" and "log \<noteq> []"
    and "\<forall>e\<in>set log. \<exists>l\<in>set mood_options. e (ascii ''mood'') = Some (PStr l)"
  shows "mood_series data =
         Inr (map (\<lambda>e. (e (ascii ''date''),
                         case e (ascii ''mood'') of
                           Some (PStr l) \<Rightarrow> Some (label_rank l)
                         | _ \<Rightarrow> None)) log)"
proof -
  obtain e es where log: "log = e # es"
    using assms(2) by (cases log) auto
  then have "e (ascii ''mood'') \<noteq> None"
    using assms(3) by auto
  then have some: "\<not> list_all (\<lambda>e. e (ascii ''mood'') = None) log"
    by (simp add: log)
  have "map (\<lambda>e. (e (ascii ''date''), score_of (e (ascii ''mood'')))) log =
        map (\<lambda>e. (e (ascii ''date''),
                   case e (ascii ''mood'') of
                     Some (PStr l) \<Rightarrow> Some (label_rank l)
                   | _ \<Rightarrow> None)) log"
  proof (rule map_cong[OF refl])
    fix x assume "x \<in> set log"
    then obtain l where "l \<in> set mood_options" "x (ascii ''mood'') = Some (PStr l)"
      using assms(3) by blast
    then show "(x (ascii ''date''), score_of (x (ascii ''mood''))) =
               (x (ascii ''date''),
                case x (ascii ''mood'') of Some (PStr l) \<Rightarrow> Some (label_rank l) | _ \<Rightarrow> None)"
      by (simp add: score_of_label)
  qed
  then show ?thesis
    using assms(1,2) some by (simp add: mood_series_def dict_get_def)
qed

lemma mood_series_three:
  assumes "dict_get data (ascii ''mood_log'') [] = []"
  shows "\<exists>m1 m2 m3 data1 data2 data3.
           log_mood data day1 ([128546, 32] @ ascii ''Sad'') = Inr (m1, data1)
         \<and> log_mood data1 day2 ([129321, 32] @ ascii ''Awesome'') = Inr (m2, data2)
         \<and> log_mood data2 day3 ([128578, 32] @ ascii ''Good'') = Inr (m3, data3)
         \<and> mood_series data3 =
             Inr [(Some (PStr (isoformat day1)), Some 1),
                  (Some (PStr (isoformat day2)), Some 5),
                  (Some (PStr (isoformat day3)), Some 3)]"
proof -
  let ?e1 = "[ascii ''date'' \<mapsto> PStr (isoformat day1), ascii ''mood'' \<mapsto> PStr ([128546, 32] @ ascii ''Sad'')]"
  let ?e2 = "[ascii ''date'' \<mapsto> PStr (isoformat day2), ascii ''mood'' \<mapsto> PStr ([129321, 32] @ ascii ''Awesome'')]"
  let ?e3 = "[ascii ''date'' \<mapsto> PStr (isoformat day3), ascii ''mood'' \<mapsto> PStr ([128578, 32] @ ascii ''Good'')]"
  let ?d1 = "data(ascii ''mood_log'' \<mapsto> [?e1])"
  let ?d2 = "data(ascii ''mood_log'' \<mapsto> [?e1, ?e2])"
  let ?d3 = "data(ascii ''mood_log'' \<mapsto> [?e1, ?e2, ?e3])"
  have s1: "log_mood data day1 ([128546, 32] @ ascii ''Sad'') = Inr (Success (ascii ''Mood logged.''), ?d1)"
    using assms by (simp add: log_mood_def)
  have s2: "log_mood ?d1 day2 ([129321, 32] @ ascii ''Awesome'') = Inr (Success (ascii ''Mood logged.''), ?d2)"
    by (simp add: log_mood_def dict_get_def)
  have s3: "log_mood ?d2 day3 ([128578, 32] @ ascii ''Good'') = Inr (Success (ascii ''Mood logged.''), ?d3)"
    by (simp add: log_mood_def dict_get_def)
  have sc: "score_of (Some (PStr ([128546, 32] @ ascii ''Sad''))) = Some 1"
    "score_of (Some (PStr ([129321, 32] @ ascii ''Awesome''))) = Some 5"
    "score_of (Some (PStr ([128578, 32] @ ascii ''Good''))) = Some 3"
    by (simp_all add: score_of_def mapping_table ascii_def)
  have m: "mood_series ?d3 =
             Inr [(Some (PStr (isoformat day1)), Some 1),
                  (Some (PStr (isoformat day2)), Some 5),
                  (Some (PStr (isoformat day3)), Some 3)]"
    using sc by (simp add: mood_series_def dict_get_def ascii_def)
  show ?thesis using s1 s2 s3 m by blast
qed

text \<open>
  Claim C7. For a non-empty mood log whose entries carry labels of the vocabulary (as
  every entry written by \<open>log_mood\<close> from the slider does), the mood series has one
  (date, score) point per entry, in the order of the log, with nothing sorted, merged
  or dropped; the score is the 1-based rank of the entry's label in \<open>mood_options\<close>.
  Starting from a store with an empty or missing mood log, logging the labels Sad,
  Awesome and Good in that order gives the scores 1, 5, 3 in that order.
\<close>

theorem mood_series_log_order:
  "(data (ascii ''mood_log'') = Some log \<and> log \<noteq> []
      \<and> (\<forall>e\<in>set log. \<exists>l\<in>set mood_options. e (ascii ''mood'') = Some (PStr l)) \<longrightarrow>
      mood_series data =
        Inr (map (\<lambda>e. (e (ascii ''date''),
                        case e (ascii ''mood'') of
                          Some (PStr l) \<Rightarrow> Some (label_rank l)
                        | _ \<Rightarrow> None)) log))
   \<and> (dict_get data (ascii ''mood_log'') [] = [] \<longrightarrow>
       (\<exists>m1 m2 m3 data1 data2 data3.
           log_mood data day1 ([128546, 32] @ ascii ''Sad'') = Inr (m1, data1)
         \<and> log_mood data1 day2 ([129321, 32] @ ascii ''Awesome'') = Inr (m2, data2)
         \<and> log_mood data2 day3 ([128578, 32] @ ascii ''Good'') = Inr (m3, data3)
         \<and> mood_series data3 =
             Inr [(Some (PStr (isoformat day1)), Some 1),
                  (Some (PStr (isoformat day2)), Some 5),
                  (Some (PStr (isoformat day3)), Some 3)]))"
  using mood_series_rows[of data log] mood_series_three[of data day1 day2 day3] by blast


theorem mood_series_log_order_witness:
  "mood_series
     [ascii ''mood_log'' \<mapsto>
        [[ascii ''date'' \<mapsto> PStr (ascii ''2024-05-17''), ascii ''mood'' \<mapsto> PStr ([128578, 32] @ ascii ''Good'')],
         [ascii ''date'' \<mapsto> PStr (ascii ''2024-05-17''), ascii ''mood'' \<mapsto> PStr ([129321, 32] @ ascii ''Awesome'')],
         [ascii ''date'' \<mapsto> PStr (ascii ''2024-05-01''), ascii ''mood'' \<mapsto> PStr ([128546, 32] @ ascii ''Sad'')]]]
   = Inr [(Some (PStr (ascii ''2024-05-17'')), Some 3),
          (Some (PStr (ascii ''2024-05-17'')), Some 5),
          (Some (PStr (ascii ''2024-05-01'')), Some 1)]
   \<and> dict_get empty_store (ascii ''mood_log'') [] = []
   \<and> (\<exists>m1 m2 m3 data1 data2 data3.
           log_mood empty_store \<lparr>year = 2024, month = 5, day = 3\<rparr> ([128546, 32] @ ascii ''Sad'')
             = Inr (m1, data1)
         \<and> log_mood data1 \<lparr>year = 2024, month = 5, day = 2\<rparr> ([129321, 32] @ ascii ''Awesome'')
             = Inr (m2, data2)
         \<and> log_mood data2 \<lparr>year = 2024, month = 5, day = 2\<rparr> ([128578, 32] @ ascii ''Good'')
             = Inr (m3, data3)
         \<and> mood_series data3 =
             Inr [(Some (PStr (ascii ''2024-05-03'')), Some 1),
                  (Some (PStr (ascii ''2024-05-02'')), Some 5),
                  (Some (PStr (ascii ''2024-05-02'')), Some 3)])"
proof -
  let ?e1 = "[ascii ''date'' \<mapsto> PStr (ascii ''2024-05-17''), ascii ''mood'' \<mapsto> PStr ([128578, 32] @ ascii ''Good'')]"
  let ?e2 = "[ascii ''date'' \<mapsto> PStr (ascii ''2024-05-17''), ascii ''mood'' \<mapsto> PStr ([129321, 32] @ ascii ''Awesome'')]"
  let ?e3 = "[ascii ''date'' \<mapsto> PStr (ascii ''2024-05-01''), ascii ''mood'' \<mapsto> PStr ([128546, 32] @ ascii ''Sad'')]"
  let ?log = "[?e1, ?e2, ?e3]"
  let ?d = "[ascii ''mood_log'' \<mapsto> ?log]"
  have h: "?d (ascii ''mood_log'') = Some ?log \<and> ?log \<noteq> []
      \<and> (\<forall>e\<in>set ?log. \<exists>l\<in>set mood_options. e (ascii ''mood'') = Some (PStr l))"
    by (simp add: mood_options_def ascii_def)
  have r: "label_rank ([128578, 32] @ ascii ''Good'') = 3"
    "label_rank ([129321, 32] @ ascii ''Awesome'') = 5"
    "label_rank ([128546, 32] @ ascii ''Sad'') = 1"
    by (simp_all add: label_rank_def mood_options_def ascii_def)
  have z: "dict_get empty_store (ascii ''mood_log'') [] = []"
    by (simp add: dict_get_def empty_store_def)
  have i: "isoformat \<lparr>year = 2024, month = 5, day = 3\<rparr> = ascii ''2024-05-03''"
    "isoformat \<lparr>year = 2024, month = 5, day = 2\<rparr> = ascii ''2024-05-02''"
    by (simp_all add: isoformat_def digit_def ascii_def)
  note a = mood_series_log_order[where data = ?d and log = ?log]
  note b = mood_series_log_order[where data = empty_store
      and ?day1.0 = "\<lparr>year = 2024, month = 5, day = 3\<rparr>"
      and ?day2.0 = "\<lparr>year = 2024, month = 5, day = 2\<rparr>"
      and ?day3.0 = "\<lparr>year = 2024, month = 5, day = 2\<rparr>"]
  from a h have "mood_series ?d =
        Inr (map (\<lambda>e. (e (ascii ''date''),
                        case e (ascii ''mood'') of
                          Some (PStr l) \<Rightarrow> Some (label_rank l)
                        | _ \<Rightarrow> None)) ?log)"
    by blast
  then have p1: "mood_series ?d = Inr [(Some (PStr (ascii ''2024-05-17'')), Some 3),
          (Some (PStr (ascii ''2024-05-17'')), Some 5),
          (Some (PStr (ascii ''2024-05-01'')), Some 1)]"
    using r by (simp add: ascii_def)
  from b z have p2: "\<exists>m1 m2 m3 data1 data2 data3.
           log_mood empty_store \<lparr>year = 2024, month = 5, day = 3\<rparr> ([128546, 32] @ ascii ''Sad'')
             = Inr (m1, data1)
         \<and> log_mood data1 \<lparr>year = 2024, month = 5, day = 2\<rparr> ([129321, 32] @ ascii ''Awesome'')
             = Inr (m2, data2)
         \<and> log_mood data2 \<lparr>year = 2024, month = 5, day = 2\<rparr> ([128578, 32] @ ascii ''Good'')
             = Inr (m3, data3)
         \<and> mood_series data3 =
             Inr [(Some (PStr (ascii ''2024-05-03'')), Some 1),
                  (Some (PStr (ascii ''2024-05-02'')), Some 5),
                  (Some (PStr (ascii ''2024-05-02'')), Some 3)]"
    unfolding i by blast
  show ?thesis using p1 z p2 by blast
qed

subsection \<open>Created string fields are trimmed\<close>

lemma strip_prefix: "\<exists>zs. dropWhile py_isspace s = strip s @ zs"
proof -
  let ?t = "dropWhile py_isspace s"
  have "rev (takeWhile py_isspace (rev ?t) @ dropWhile py_isspace (rev ?t)) = ?t"
    by (simp only: takeWhile_dropWhile_id rev_rev_ident)
  then have "?t = strip s @ rev (takeWhile py_isspace (rev ?t))"
    by (simp only: rev_append strip_def)
  then show ?thesis by blast
qed

text \<open>\<open>strip()\<close> removes whitespace from the two ends and nothing else.\<close>

lemma strip_removes_only_space:
  "\<exists>a b. s = a @ strip s @ b \<and> list_all py_isspace a \<and> list_all py_isspace b"
proof -
  let ?a = "takeWhile py_isspace s"
  let ?t = "dropWhile py_isspace s"
  let ?b = "rev (takeWhile py_isspace (rev ?t))"
  have "rev (takeWhile py_isspace (rev ?t) @ dropWhile py_isspace (rev ?t)) = ?t"
    by (simp only: takeWhile_dropWhile_id rev_rev_ident)
  then have t: "?t = strip s @ ?b"
    by (simp only: rev_append strip_def)
  have "s = ?a @ ?t" by simp
  with t have "s = ?a @ strip s @ ?b" by simp
  moreover have "list_all py_isspace ?a"
    by (auto simp add: list_all_iff dest: set_takeWhileD)
  moreover have "list_all py_isspace ?b"
    by (auto simp add: list_all_iff dest: set_takeWhileD)
  ultimately show ?thesis by blast
qed

lemma trimmed_strip: "trimmed (strip s)"
proof (cases "strip s")
  case Nil
  then show ?thesis by (simp add: trimmed_def)
next
  case (Cons c cs)
  obtain zs where z: "dropWhile py_isspace s = strip s @ zs"
    using strip_prefix by blast
  then have "hd (dropWhile py_isspace s) = c" using Cons by simp
  moreover have "dropWhile py_isspace s \<noteq> []" using z Cons by simp
  ultimately have first: "\<not> py_isspace c"
    using hd_dropWhile[of py_isspace s] by auto
  let ?r = "dropWhile py_isspace (rev (dropWhile py_isspace s))"
  have r: "?r \<noteq> []" using Cons by (simp add: strip_def)
  then have "\<not> py_isspace (hd ?r)" by (rule hd_dropWhile)
  moreover have "last (strip s) = hd ?r"
    using r by (simp add: strip_def last_rev)
  ultimately have "\<not> py_isspace (last (strip s))" by simp
  with first Cons show ?thesis by (simp add: trimmed_def)
qed

lemma digit_not_space: "\<not> py_isspace (digit n)"
proof -
  have "n mod 10 < 10" by simp
  then show ?thesis unfolding py_isspace_def digit_def by arith
qed

lemma trimmed_isoformat: "trimmed (isoformat d)"
  by (simp add: trimmed_def isoformat_def digit_not_space)

lemma trimmed_priority: "p \<in> set priority_options \<Longrightarrow> trimmed p"
  by (auto simp add: priority_options_def trimmed_def ascii_def py_isspace_def)

lemma trimmed_Pending: "trimmed (ascii ''Pending'')"
  by (simp add: trimmed_def ascii_def py_isspace_def)

lemma entity_trimmed_new_task:
  "priority \<in> set priority_options \<Longrightarrow> entity_trimmed (new_task task_name priority due_date)"
  by (auto simp add: entity_trimmed_def new_task_def trimmed_strip trimmed_isoformat
      trimmed_priority trimmed_Pending split: if_splits)

lemma entity_trimmed_new_note: "entity_trimmed (new_note note_title note_body today)"
  by (auto simp add: entity_trimmed_def new_note_def trimmed_strip trimmed_isoformat
      split: if_splits)

lemma entity_trimmed_new_habit: "entity_trimmed (new_habit habit_name)"
  by (auto simp add: entity_trimmed_def new_habit_def trimmed_strip split: if_splits)

lemma store_trimmed_empty: "store_trimmed empty_store"
  by (auto simp add: store_trimmed_def empty_store_def split: if_splits)

lemma store_trimmed_append:
  assumes "store_trimmed data" and "entity_trimmed e"
  shows "store_trimmed (data(k \<mapsto> dict_get data k [] @ [e]))"
  unfolding store_trimmed_def
proof (intro allI impI ballI)
  fix k' es x
  assume u: "(data(k \<mapsto> dict_get data k [] @ [e])) k' = Some es" and x: "x \<in> set es"
  show "entity_trimmed x"
  proof (cases "k' = k")
    case True
    then have es: "es = dict_get data k [] @ [e]" using u by simp
    show ?thesis
    proof (cases "data k")
      case None
      then show ?thesis using es x assms(2) by (simp add: dict_get_def)
    next
      case (Some old)
      then have "\<forall>y\<in>set old. entity_trimmed y"
        using assms(1) by (simp add: store_trimmed_def)
      then show ?thesis using es x assms(2) Some by (auto simp add: dict_get_def)
    qed
  next
    case False
    then have "data k' = Some es" using u by simp
    then show ?thesis using assms(1) x by (auto simp add: store_trimmed_def)
  qed
qed

lemma add_task_keeps_trimmed:
  assumes "store_trimmed data" and "priority \<in> set priority_options"
    and "add_task data task_name priority due_date = Inr (m, data')"
  shows "store_trimmed data'"
proof (cases "strip task_name = []")
  case True
  then show ?thesis using assms(1,3) by (simp add: add_task_def)
next
  case False
  then obtain ts where ts: "data (ascii ''tasks'') = Some ts"
    and d': "data' = data(ascii ''tasks'' \<mapsto> ts @ [new_task task_name priority due_date])"
    using assms(3) by (auto simp add: add_task_def split: option.splits)
  have "ts = dict_get data (ascii ''tasks'') []" using ts by (simp add: dict_get_def)
  then show ?thesis
    using store_trimmed_append[OF assms(1) entity_trimmed_new_task[OF assms(2)],
        of "ascii ''tasks''" task_name due_date] d'
    by simp
qed

lemma save_note_keeps_trimmed:
  assumes "store_trimmed data"
    and "save_note data note_title note_body today = Inr (m, data')"
  shows "store_trimmed data'"
proof (cases "strip note_title = [] \<or> strip note_body = []")
  case True
  then show ?thesis using assms by (auto simp add: save_note_def)
next
  case False
  then have "data' = data(ascii ''notes'' \<mapsto>
               dict_get data (ascii ''notes'') [] @ [new_note note_title note_body today])"
    using assms(2) by (auto simp add: save_note_def)
  then show ?thesis
    using store_trimmed_append[OF assms(1) entity_trimmed_new_note] by simp
qed

lemma add_habit_keeps_trimmed:
  assumes "store_trimmed data" and "add_habit data habit_name = Inr (m, data')"
  shows "store_trimmed data'"
proof (cases "strip habit_name = []")
  case True
  then show ?thesis using assms by (auto simp add: add_habit_def)
next
  case False
  then have "data' = data(ascii ''habits'' \<mapsto>
               dict_get data (ascii ''habits'') [] @ [new_habit habit_name])"
    using assms(2) by (auto simp add: add_habit_def)
  then show ?thesis
    using store_trimmed_append[OF assms(1) entity_trimmed_new_habit] by simp
qed

lemma created_store_trimmed: "created data \<Longrightarrow> store_trimmed data"
proof (induction rule: created.induct)
  case from_fresh
  show ?case by (rule store_trimmed_empty)
next
  case (by_task data priority task_name due_date m data')
  then show ?case by (blast intro: add_task_keeps_trimmed)
next
  case (by_note data note_title note_body today m data')
  then show ?case by (blast intro: save_note_keeps_trimmed)
next
  case (by_habit data habit_name m data')
  then show ?case by (blast intro: add_habit_keeps_trimmed)
qed


text \<open>
  Claim C9. The result of \<open>strip()\<close> never starts or ends with whitespace. A
  successful \<open>add_task\<close> appends a task whose name is the trimmed input, a successful
  \<open>save_note\<close> a note whose title and content are the trimmed inputs, and a successful
  \<open>add_habit\<close> a habit whose name is the trimmed input. In every store built from the
  fresh store by these three handlers, no string field of any entity has leading or
  trailing whitespace.
\<close>

theorem created_fields_trimmed:
  "trimmed (strip s)
   \<and> (strip task_name \<noteq> [] \<and> data (ascii ''tasks'') = Some ts \<longrightarrow>
        (\<exists>m data' t. add_task data task_name priority due_date = Inr (m, data')
            \<and> data' (ascii ''tasks'') = Some (ts @ [t])
            \<and> t (ascii ''name'') = Some (PStr (strip task_name))))
   \<and> (strip note_title \<noteq> [] \<and> strip note_body \<noteq> [] \<longrightarrow>
        (\<exists>m data' n. save_note data note_title note_body today = Inr (m, data')
            \<and> data' (ascii ''notes'') = Some (dict_get data (ascii ''notes'') [] @ [n])
            \<and> n (ascii ''title'') = Some (PStr (strip note_title))
            \<and> n (ascii ''content'') = Some (PStr (strip note_body))))
   \<and> (strip habit_name \<noteq> [] \<longrightarrow>
        (\<exists>m data' h. add_habit data habit_name = Inr (m, data')
            \<and> data' (ascii ''habits'') = Some (dict_get data (ascii ''habits'') [] @ [h])
            \<and> h (ascii ''name'') = Some (PStr (strip habit_name))))
   \<and> (created d \<longrightarrow> store_trimmed d)"
proof (intro conjI impI)
  show "trimmed (strip s)" by (rule trimmed_strip)
next
  assume "strip task_name \<noteq> [] \<and> data (ascii ''tasks'') = Some ts"
  then have "add_task data task_name priority due_date =
      Inr (Success (ascii ''Task added.''),
           data(ascii ''tasks'' \<mapsto> ts @ [new_task task_name priority due_date]))"
    by (simp add: add_task_def)
  moreover have "new_task task_name priority due_date (ascii ''name'') = Some (PStr (strip task_name))"
    by (simp add: new_task_def ascii_def)
  ultimately show "\<exists>m data' t. add_task data task_name priority due_date = Inr (m, data')
            \<and> data' (ascii ''tasks'') = Some (ts @ [t])
            \<and> t (ascii ''name'') = Some (PStr (strip task_name))"
    by (intro exI[of _ "Success (ascii ''Task added.'')"]
        exI[of _ "data(ascii ''tasks'' \<mapsto> ts @ [new_task task_name priority due_date])"]
        exI[of _ "new_task task_name priority due_date"]) simp
next
  assume "strip note_title \<noteq> [] \<and> strip note_body \<noteq> []"
  then have "save_note data note_title note_body today =
      Inr (Success (ascii ''Note saved.''),
           data(ascii ''notes'' \<mapsto>
             dict_get data (ascii ''notes'') [] @ [new_note note_title note_body today]))"
    by (simp add: save_note_def)
  moreover have "new_note note_title note_body today (ascii ''title'') = Some (PStr (strip note_title))"
    "new_note note_title note_body today (ascii ''content'') = Some (PStr (strip note_body))"
    by (simp_all add: new_note_def ascii_def)
  ultimately show "\<exists>m data' n. save_note data note_title note_body today = Inr (m, data')
            \<and> data' (ascii ''notes'') = Some (dict_get data (ascii ''notes'') [] @ [n])
            \<and> n (ascii ''title'') = Some (PStr (strip note_title))
            \<and> n (ascii ''content'') = Some (PStr (strip note_body))"
    by (intro exI[of _ "Success (ascii ''Note saved.'')"]
        exI[of _ "data(ascii ''notes'' \<mapsto>
             dict_get data (ascii ''notes'') [] @ [new_note note_title note_body today])"]
        exI[of _ "new_note note_title note_body today"]) simp
next
  assume "strip habit_name \<noteq> []"
  then have "add_habit data habit_name =
      Inr (Success (ascii ''Habit added.''),
           data(ascii ''habits'' \<mapsto> dict_get data (ascii ''habits'') [] @ [new_habit habit_name]))"
    by (simp add: add_habit_def)
  moreover have "new_habit habit_name (ascii ''name'') = Some (PStr (strip habit_name))"
    by (simp add: new_habit_def ascii_def)
  ultimately show "\<exists>m data' h. add_habit data habit_name = Inr (m, data')
            \<and> data' (ascii ''habits'') = Some (dict_get data (ascii ''habits'') [] @ [h])
            \<and> h (ascii ''name'') = Some (PStr (strip habit_name))"
    by (intro exI[of _ "Success (ascii ''Habit added.'')"]
        exI[of _ "data(ascii ''habits'' \<mapsto> dict_get data (ascii ''habits'') [] @ [new_habit habit_name])"]
        exI[of _ "new_habit habit_name"]) simp
next
  assume "created d"
  then show "store_trimmed d" by (rule created_store_trimmed)
qed

theorem created_fields_trimmed_witness:
  "strip (ascii '' Buy milk '') \<noteq> [] \<and> empty_store (ascii ''tasks'') = Some []
   \<and> (\<exists>m data' t. add_task empty_store (ascii '' Buy milk '') (ascii ''Low'')
                     \<lparr>year = 2024, month = 5, day = 17\<rparr> = Inr (m, data')
         \<and> data' (ascii ''tasks'') = Some ([] @ [t])
         \<and> t (ascii ''name'') = Some (PStr (ascii ''Buy milk'')))
   \<and> strip (ascii ''t '') \<noteq> [] \<and> strip (ascii '' b'') \<noteq> []
   \<and> (\<exists>m data' n. save_note empty_store (ascii ''t '') (ascii '' b'')
                     \<lparr>year = 2024, month = 5, day = 17\<rparr> = Inr (m, data')
         \<and> n (ascii ''title'') = Some (PStr (ascii ''t''))
         \<and> n (ascii ''content'') = Some (PStr (ascii ''b'')))
   \<and> (\<exists>m data' h. add_habit empty_store (ascii '' run '') = Inr (m, data')
         \<and> h (ascii ''name'') = Some (PStr (ascii ''run'')))
   \<and> created (empty_store(ascii ''habits'' \<mapsto> [new_habit (ascii '' run '')]))
   \<and> store_trimmed (empty_store(ascii ''habits'' \<mapsto> [new_habit (ascii '' run '')]))"
proof -
  let ?day = "\<lparr>year = 2024, month = 5, day = 17\<rparr>"
  let ?d1 = "empty_store(ascii ''habits'' \<mapsto> [new_habit (ascii '' run '')])"
  have s: "strip (ascii '' Buy milk '') = ascii ''Buy milk''" "strip (ascii ''t '') = ascii ''t''"
    "strip (ascii '' b'') = ascii ''b''" "strip (ascii '' run '') = ascii ''run''"
    by (simp_all add: strip_def ascii_def py_isspace_def)
  have ne: "ascii ''Buy milk'' \<noteq> []" "ascii ''t'' \<noteq> []" "ascii ''b'' \<noteq> []" "ascii ''run'' \<noteq> []"
    by (simp_all add: ascii_def)
  have e: "empty_store (ascii ''tasks'') = Some []"
    by (simp add: empty_store_def ascii_def)
  have g: "dict_get empty_store (ascii ''habits'') [] = []"
    by (simp add: dict_get_def empty_store_def ascii_def)
  have "add_habit empty_store (ascii '' run '') = Inr (Success (ascii ''Habit added.''), ?d1)"
    by (simp add: add_habit_def s ne g)
  then have c: "created ?d1"
    by (rule created.by_habit[OF created.from_fresh])
  note t = created_fields_trimmed[where data = empty_store and ts = "[]" and d = ?d1
      and task_name = "ascii '' Buy milk ''" and priority = "ascii ''Low''" and due_date = ?day
      and note_title = "ascii ''t ''" and note_body = "ascii '' b''" and today = ?day
      and habit_name = "ascii '' run ''", unfolded s]
  from t ne e have p1: "\<exists>m data' t. add_task empty_store (ascii '' Buy milk '') (ascii ''Low'') ?day = Inr (m, data')
         \<and> data' (ascii ''tasks'') = Some ([] @ [t])
         \<and> t (ascii ''name'') = Some (PStr (ascii ''Buy milk''))"
    by blast
  from t ne have p2: "\<exists>m data' n. save_note empty_store (ascii ''t '') (ascii '' b'') ?day = Inr (m, data')
         \<and> n (ascii ''title'') = Some (PStr (ascii ''t''))
         \<and> n (ascii ''content'') = Some (PStr (ascii ''b''))"
    by blast
  from t ne have p3: "\<exists>m data' h. add_habit empty_store (ascii '' run '') = Inr (m, data')
         \<and> h (ascii ''name'') = Some (PStr (ascii ''run''))"
    by blast
  from t c have p4: "store_trimmed ?d1" by blast
  show ?thesis
    unfolding s using ne e p1 p2 p3 c p4 by blast
qed

subsection \<open>Loading and saving\<close>

lemma empty_store_lists:
  "empty_store (ascii ''tasks'') = Some []" "empty_store (ascii ''notes'') = Some []"
  "empty_store (ascii ''habits'') = Some []" "empty_store (ascii ''mood_log'') = Some []"
  by (simp_all add: empty_store_def ascii_def)

lemma dom_empty_store:
  "dom empty_store = {ascii ''tasks'', ascii ''notes'', ascii ''habits'', ascii ''mood_log''}"
  by (auto simp add: empty_store_def)

lemma open_rb_error: "open_rb f = Inl e \<Longrightarrow> e = OSError"
  by (auto simp add: open_rb_def split: option.splits if_splits)

text \<open>
  Claim C2 as stated fails on two files. On the file that makes \<open>pickle.load\<close> raise
  \<open>SystemExit\<close>, \<open>load_data\<close> raises \<open>SystemExit\<close>: \<open>except Exception\<close> does not
  catch it. On the store file with one byte changed, \<open>load_data\<close> returns what the
  file unpickles to, a store without the key \<open>tasks\<close>, and not the fresh store.
\<close>

theorem load_data_lets_system_exit_through:
  "load_data pickle_load_sample
     \<lparr>content = Some [99, 115, 121, 115, 10, 101, 120, 105, 116, 10, 40, 116, 82, 46],
      readable = True, writable = True\<rparr>
   = Inl SystemExit
   \<and> load_data pickle_load_sample
     \<lparr>content = Some [128, 4, 149, 49, 0, 0, 0, 0, 0, 0, 0, 125, 148, 40, 140, 5, 116, 97, 115,
                     106, 115, 148, 93, 148, 140, 5, 110, 111, 116, 101, 115, 148, 93, 148, 140,
                     6, 104, 97, 98, 105, 116, 115, 148, 93, 148, 140, 8, 109, 111, 111, 100, 95,
                     108, 111, 103, 148, 93, 148, 117, 46],
      readable = True, writable = True\<rparr>
   = Inr (Store [ascii ''tasjs'' \<mapsto> [], ascii ''notes'' \<mapsto> [], ascii ''habits'' \<mapsto> [],
                 ascii ''mood_log'' \<mapsto> []])
   \<and> [ascii ''tasjs'' \<mapsto> [], ascii ''notes'' \<mapsto> [], ascii ''habits'' \<mapsto> [],
       ascii ''mood_log'' \<mapsto> []] \<noteq> empty_store"
proof -
  have "[ascii ''tasjs'' \<mapsto> [], ascii ''notes'' \<mapsto> [], ascii ''habits'' \<mapsto> [],
         ascii ''mood_log'' \<mapsto> []] (ascii ''tasks'') \<noteq> empty_store (ascii ''tasks'')"
    by (simp add: empty_store_def ascii_def)
  then have ne: "[ascii ''tasjs'' \<mapsto> [], ascii ''notes'' \<mapsto> [], ascii ''habits'' \<mapsto> [],
         ascii ''mood_log'' \<mapsto> []] \<noteq> empty_store"
    by metis
  show ?thesis
    using ne
    by (simp add: load_data_def path_exists_def open_rb_def pickle_load_sample_def is_exception_def)
qed

text \<open>
  Claim C2, amended. \<open>load_data\<close> raises no exception that is an \<open>Exception\<close>. When
  the file is absent, when it exists but cannot be opened, and when \<open>pickle.load\<close>
  raises an \<open>Exception\<close> on its bytes, the result is the fresh store, which has exactly
  the four keys tasks, notes, habits and mood\_log, each an empty list. An exception of
  \<open>pickle.load\<close> that is not an \<open>Exception\<close> propagates, and a file that
  \<open>pickle.load\<close> reads is returned as read, whatever it holds.
\<close>

theorem load_data_catches_exceptions:
  "(content f = None \<longrightarrow> load_data loads f = Inr (Store empty_store))
   \<and> (\<forall>e. open_rb f = Inl e \<longrightarrow> load_data loads f = Inr (Store empty_store))
   \<and> (\<forall>b e. open_rb f = Inr b \<and> loads b = Inl e \<and> is_exception e \<longrightarrow>
         load_data loads f = Inr (Store empty_store))
   \<and> (\<forall>b e. open_rb f = Inr b \<and> loads b = Inl e \<and> \<not> is_exception e \<longrightarrow>
         load_data loads f = Inl e)
   \<and> (\<forall>b v. open_rb f = Inr b \<and> loads b = Inr v \<longrightarrow> load_data loads f = Inr v)
   \<and> (\<forall>e. load_data loads f = Inl e \<longrightarrow> \<not> is_exception e)
   \<and> dom empty_store = {ascii ''tasks'', ascii ''notes'', ascii ''habits'', ascii ''mood_log''}
   \<and> empty_store (ascii ''tasks'') = Some [] \<and> empty_store (ascii ''notes'') = Some []
   \<and> empty_store (ascii ''habits'') = Some [] \<and> empty_store (ascii ''mood_log'') = Some []"
proof (intro conjI allI impI)
  assume "content f = None"
  then show "load_data loads f = Inr (Store empty_store)"
    by (simp add: load_data_def path_exists_def)
next
  fix e assume o: "open_rb f = Inl e"
  then have "e = OSError" by (rule open_rb_error)
  then show "load_data loads f = Inr (Store empty_store)"
    using o by (simp add: load_data_def is_exception_def)
next
  fix b e assume "open_rb f = Inr b \<and> loads b = Inl e \<and> is_exception e"
  then show "load_data loads f = Inr (Store empty_store)"
    by (auto simp add: load_data_def open_rb_def path_exists_def split: option.splits if_splits)
next
  fix b e assume "open_rb f = Inr b \<and> loads b = Inl e \<and> \<not> is_exception e"
  then show "load_data loads f = Inl e"
    by (auto simp add: load_data_def open_rb_def path_exists_def split: option.splits if_splits)
next
  fix b v assume "open_rb f = Inr b \<and> loads b = Inr v"
  then show "load_data loads f = Inr v"
    by (auto simp add: load_data_def open_rb_def path_exists_def split: option.splits if_splits)
next
  fix e assume "load_data loads f = Inl e"
  then show "\<not> is_exception e"
    by (auto simp add: load_data_def split: if_splits sum.splits)
qed (simp_all add: dom_empty_store empty_store_lists)


theorem load_data_catches_exceptions_witness:
  "load_data pickle_load_sample \<lparr>content = None, readable = True, writable = True\<rparr>
     = Inr (Store empty_store)
   \<and> load_data pickle_load_sample \<lparr>content = Some [7], readable = False, writable = True\<rparr>
     = Inr (Store empty_store)
   \<and> load_data pickle_load_sample \<lparr>content = Some [7], readable = True, writable = True\<rparr>
     = Inr (Store empty_store)
   \<and> load_data pickle_load_sample
       \<lparr>content = Some [99, 115, 121, 115, 10, 101, 120, 105, 116, 10, 40, 116, 82, 46],
        readable = True, writable = True\<rparr>
     = Inl SystemExit"
proof -
  define f0 where "f0 = \<lparr>content = (None :: nat list option), readable = True, writable = True\<rparr>"
  define f1 where "f1 = \<lparr>content = Some [7::nat], readable = False, writable = True\<rparr>"
  define f2 where "f2 = \<lparr>content = Some [7::nat], readable = True, writable = True\<rparr>"
  define B where "B = [99::nat, 115, 121, 115, 10, 101, 120, 105, 116, 10, 40, 116, 82, 46]"
  define f3 where "f3 = \<lparr>content = Some B, readable = True, writable = True\<rparr>"
  have a: "content f0 = None" by (simp add: f0_def)
  have b: "open_rb f1 = Inl OSError" by (simp add: open_rb_def f1_def)
  have c: "open_rb f2 = Inr [7] \<and> pickle_load_sample [7] = Inl UnpicklingError
           \<and> is_exception UnpicklingError"
    by (simp add: open_rb_def pickle_load_sample_def is_exception_def f2_def)
  have d: "open_rb f3 = Inr B \<and> pickle_load_sample B = Inl SystemExit \<and> \<not> is_exception SystemExit"
    by (simp add: open_rb_def pickle_load_sample_def is_exception_def f3_def B_def)
  note t0 = load_data_catches_exceptions[where loads = pickle_load_sample and f = f0]
  note t1 = load_data_catches_exceptions[where loads = pickle_load_sample and f = f1]
  note t2 = load_data_catches_exceptions[where loads = pickle_load_sample and f = f2]
  note t3 = load_data_catches_exceptions[where loads = pickle_load_sample and f = f3]
  have r0: "load_data pickle_load_sample f0 = Inr (Store empty_store)"
    using t0[THEN conjunct1] a by (rule mp)
  have r1: "load_data pickle_load_sample f1 = Inr (Store empty_store)"
    using b by (rule t1[THEN conjunct2, THEN conjunct1, rule_format])
  have r2: "load_data pickle_load_sample f2 = Inr (Store empty_store)"
    using c by (rule t2[THEN conjunct2, THEN conjunct2, THEN conjunct1, rule_format])
  have r3: "load_data pickle_load_sample f3 = Inl SystemExit"
    using d by (rule t3[THEN conjunct2, THEN conjunct2, THEN conjunct2, THEN conjunct1, rule_format])
  show ?thesis using r0 r1 r2 r3 unfolding f0_def f1_def f2_def f3_def B_def by simp
qed



subsection \<open>Saving an edit with a blank name\<close>










subsection \<open>A habit without a streak in a run of the page\<close>

text \<open>
  In a run, the row text of line 163 is written before the Mark today button of the
  row is tested. For habits that have a name and a streak, the run started by the Mark
  today click of row \<open>i\<close> does what \<open>mark_today\<close> does and reruns. For a habit
  without a streak the row text raises \<open>KeyError\<close> and the handler is not reached.
\<close>

lemma habit_row_error: "habit_row h = Inl e \<Longrightarrow> e = KeyError"
  by (auto simp add: habit_row_def split: option.splits)

lemma habit_rows_missing_streak:
  "i < length hs \<Longrightarrow> (hs ! i) (ascii ''streak'') = None \<Longrightarrow>
     habit_rows (ClickMarkToday (k + i)) data k hs = Inl KeyError"
proof (induction hs arbitrary: i k)
  case Nil
  then show ?case by simp
next
  case (Cons h rest)
  show ?case
  proof (cases i)
    case 0
    with Cons.prems have "habit_row h = Inl KeyError"
      by (simp add: habit_row_def split: option.splits)
    then show ?thesis by simp
  next
    case (Suc i')
    with Cons.prems have "i' < length rest" "(rest ! i') (ascii ''streak'') = None"
      by simp_all
    then have "habit_rows (ClickMarkToday (Suc k + i')) data (Suc k) rest = Inl KeyError"
      by (rule Cons.IH)
    then have rec: "habit_rows (ClickMarkToday (k + i)) data (Suc k) rest = Inl KeyError"
      using Suc by simp
    show ?thesis
    proof (cases "habit_row h")
      case (Inl e)
      then have "e = KeyError" by (rule habit_row_error)
      with Inl show ?thesis by simp
    next
      case (Inr row)
      then show ?thesis using rec Suc by (simp add: button_def)
    qed
  qed
qed

lemma habit_rows_runs_mark_today:
  "i < length hs \<Longrightarrow>
   \<forall>h\<in>set hs. h (ascii ''name'') \<noteq> None \<and> h (ascii ''streak'') \<noteq> None \<Longrightarrow>
     habit_rows (ClickMarkToday (k + i)) data k hs =
       (case mark_today data (k + i) of Inl e \<Rightarrow> Inl e | Inr (m, d) \<Rightarrow> Inr (Rerun, m, d))"
proof (induction hs arbitrary: i k)
  case Nil
  then show ?case by simp
next
  case (Cons h rest)
  from Cons.prems(2) obtain row where row: "habit_row h = Inr row"
    by (auto simp add: habit_row_def split: option.splits)
  show ?case
  proof (cases i)
    case 0
    then show ?thesis using row by (simp add: button_def)
  next
    case (Suc i')
    with Cons.prems have "i' < length rest"
      "\<forall>h\<in>set rest. h (ascii ''name'') \<noteq> None \<and> h (ascii ''streak'') \<noteq> None"
      by simp_all
    then have "habit_rows (ClickMarkToday (Suc k + i')) data (Suc k) rest =
       (case mark_today data (Suc k + i') of Inl e \<Rightarrow> Inl e | Inr (m, d) \<Rightarrow> Inr (Rerun, m, d))"
      by (rule Cons.IH)
    then show ?thesis using row Suc by (simp add: button_def)
  qed
qed

lemma habits_section_runs_mark_today:
  assumes "data (ascii ''habits'') = Some hs" and "i < length hs"
    and "\<forall>h\<in>set hs. h (ascii ''name'') \<noteq> None \<and> h (ascii ''streak'') \<noteq> None"
  shows "habits_section (ClickMarkToday i) data =
           (case mark_today data i of Inl e \<Rightarrow> Inl e | Inr (m, d) \<Rightarrow> Inr (Rerun, m, d))"
  using habit_rows_runs_mark_today[OF assms(2,3), of 0 data] assms(1)
  by (simp add: habits_section_def dict_get_def)

lemma habits_section_missing_streak:
  assumes "data (ascii ''habits'') = Some hs" and "i < length hs"
    and "(hs ! i) (ascii ''streak'') = None"
  shows "habits_section (ClickMarkToday i) data = Inl KeyError"
  using habit_rows_missing_streak[OF assms(2,3), of 0 data] assms(1)
  by (simp add: habits_section_def dict_get_def)

text \<open>
  Claim C10, evaluated on the code. On a store whose only habit has a name and no
  streak, the habits section raises \<open>KeyError\<close> in the run started by the Mark today
  click of that habit, and in a run without a click. The body of the handler alone,
  given the same store, reads the missing streak as 0 and stores 1.
\<close>

theorem habit_without_streak_raises:
  "habits_section (ClickMarkToday 0) [ascii ''habits'' \<mapsto> [[ascii ''name'' \<mapsto> PStr (ascii ''run'')]]]
     = Inl KeyError
   \<and> habits_section NoClick [ascii ''habits'' \<mapsto> [[ascii ''name'' \<mapsto> PStr (ascii ''run'')]]]
     = Inl KeyError
   \<and> mark_today [ascii ''habits'' \<mapsto> [[ascii ''name'' \<mapsto> PStr (ascii ''run'')]]] 0
     = Inr (Quiet, [ascii ''habits'' \<mapsto> [[ascii ''name'' \<mapsto> PStr (ascii ''run''),
                                            ascii ''streak'' \<mapsto> PInt 1]]])"
proof -
  have s: "[ascii ''name'' \<mapsto> PStr (ascii ''run'')] (ascii ''streak'') = None"
    by (simp add: ascii_def)
  then have r: "habit_row [ascii ''name'' \<mapsto> PStr (ascii ''run'')] = Inl KeyError"
    by (simp add: habit_row_def)
  show ?thesis
    using s r by (simp add: habits_section_def dict_get_def mark_today_def)
qed

end
